theory Spec2Isabelle
  imports Main "HOL-Library.Multiset" "HOL-Library.Option_ord" "HOL-Library.Sublist"
begin

section \<open>Values, documents and responses\<close>

text \<open>
  A \<open>Date\<close> is its number of milliseconds since the epoch, an \<open>ObjectId\<close> a natural
  number. Strings are Isabelle strings (characters with codes below 256).
\<close>

type_synonym date = int
type_synonym ObjectId = nat

text \<open>
  \<^verbatim>\<open>interface UserCredentials { username: string; password: string }\<close>
  \<^verbatim>\<open>interface User extends UserCredentials { _id?: ObjectId; dateJoined: Date }\<close>
  The field \<open>_id\<close> is written \<open>u_id\<close>; \<open>None\<close> is \<open>undefined\<close>.
\<close>

record UserCredentials =
  username :: string
  password :: string

record User = UserCredentials +
  u_id :: "ObjectId option"
  dateJoined :: date

text \<open>
  \<^verbatim>\<open>Partial<User>\<close>, the argument of \<open>$set\<close>: every field of \<open>User\<close>, each of them
  optional.
\<close>

record UserUpdates =
  set_username :: "string option"
  set_password :: "string option"
  set_id :: "ObjectId option"
  set_dateJoined :: "date option"

text \<open>
  \<^verbatim>\<open>interface Message { _id?: ObjectId; msg: string; msgFrom: string; msgDateTime: Date }\<close>
  with \<open>msgDateTime\<close> optional, since \<open>saveMessage\<close> tests it for presence.
\<close>

record Message =
  m_id :: "ObjectId option"
  msg :: string
  msgFrom :: string
  msgDateTime :: "date option"

text \<open>
  The objects the user service returns are object literals: a list of keys with their
  values. \<open>'error' in result\<close> asks for a key, \<open>result.error\<close> reads one.
\<close>

datatype jsval = JUndefined | JObjectId ObjectId | JString string | JDate date

type_synonym jsobj = "(string \<times> jsval) list"

definition keys :: "jsobj \<Rightarrow> string list" where
  "keys obj = map fst obj"

definition has_key :: "string \<Rightarrow> jsobj \<Rightarrow> bool" where
  "has_key k obj = (k \<in> set (keys obj))"

definition get_prop :: "jsobj \<Rightarrow> string \<Rightarrow> jsval" where
  "get_prop obj k = (case map_of obj k of None \<Rightarrow> JUndefined | Some v \<Rightarrow> v)"

text \<open>\<^verbatim>\<open>{ error: message }\<close>\<close>

definition error_obj :: "string \<Rightarrow> jsobj" where
  "error_obj message = [(''error'', JString message)]"

text \<open>
  \<^verbatim>\<open>{ _id: user._id, username: user.username, dateJoined: user.dateJoined }\<close>,
  the literal that each function of the user service returns on success.
\<close>

definition safe_user :: "User \<Rightarrow> jsobj" where
  "safe_user user =
     [(''_id'', case u_id user of None \<Rightarrow> JUndefined | Some i \<Rightarrow> JObjectId i),
      (''username'', JString (username user)),
      (''dateJoined'', JDate (dateJoined user))]"

text \<open>\<^verbatim>\<open>type MessageResponse = Message | { error: string }\<close>\<close>

datatype MessageResponse = SavedMessage Message | MessageError string

section \<open>Promises over a world\<close>

text \<open>
  An asynchronous computation takes the world (the database, the socket) and returns the
  world it leaves behind, with either the value it resolves to (\<open>Inr\<close>) or the exception
  it rejects with (\<open>Inl\<close>).
\<close>

datatype exn = Error string

type_synonym ('a, 'w) promise = "'w \<Rightarrow> (exn + 'a) \<times> 'w"

definition resolve :: "'a \<Rightarrow> ('a, 'w) promise" where
  "resolve a w = (Inr a, w)"

definition reject :: "exn \<Rightarrow> ('a, 'w) promise" where
  "reject e w = (Inl e, w)"

text \<open>\<open>await p f\<close>: \<^verbatim>\<open>const x = await p; f(x)\<close>. A rejection of \<open>p\<close> skips \<open>f\<close>.\<close>

definition await :: "('a, 'w) promise \<Rightarrow> ('a \<Rightarrow> ('b, 'w) promise) \<Rightarrow> ('b, 'w) promise" where
  "await p f w = (case p w of (Inl e, w') \<Rightarrow> (Inl e, w') | (Inr a, w') \<Rightarrow> f a w')"

text \<open>\<open>try_catch p h\<close>: \<^verbatim>\<open>try { p } catch (error) { h(error) }\<close>.\<close>

definition try_catch :: "('a, 'w) promise \<Rightarrow> (exn \<Rightarrow> ('a, 'w) promise) \<Rightarrow> ('a, 'w) promise" where
  "try_catch p h w = (case p w of (Inl e, w') \<Rightarrow> h e w' | (Inr a, w') \<Rightarrow> (Inr a, w'))"

section \<open>The store, as the services see it\<close>

text \<open>
  The services import \<open>UserModel\<close> and \<open>MessageModel\<close> from the model modules.
  Here they are a parameter of each service: a record of the store calls the services
  make, each of which may resolve or reject and may change the world.
  \<^item> \<open>user_findOne name\<close> is \<^verbatim>\<open>UserModel.findOne({ username: name })\<close>;
  \<^item> \<open>user_create doc\<close> is \<^verbatim>\<open>UserModel.create(doc)\<close>;
  \<^item> \<open>user_findOneAndDelete name\<close> is \<^verbatim>\<open>UserModel.findOneAndDelete({ username: name })\<close>;
  \<^item> \<open>user_findOneAndUpdate name updates\<close> is
    \<^verbatim>\<open>UserModel.findOneAndUpdate({ username: name }, { $set: updates }, { new: true })\<close>;
  \<^item> \<open>message_create doc\<close> is \<^verbatim>\<open>MessageModel.create(doc)\<close>;
  \<^item> \<open>message_find_sort_msgDateTime dir\<close> is
    \<^verbatim>\<open>MessageModel.find().sort({ msgDateTime: dir })\<close>.
\<close>

record 'w UserModel =
  user_findOne :: "string \<Rightarrow> (User option, 'w) promise"
  user_create :: "User \<Rightarrow> (User, 'w) promise"
  user_findOneAndDelete :: "string \<Rightarrow> (User option, 'w) promise"
  user_findOneAndUpdate :: "string \<Rightarrow> UserUpdates \<Rightarrow> (User option, 'w) promise"

record 'w MessageModel =
  message_create :: "Message \<Rightarrow> (Message, 'w) promise"
  message_find_sort_msgDateTime :: "int \<Rightarrow> (Message list, 'w) promise"

section \<open>The user service\<close>

text \<open>\<open>now\<close> is the value of \<^verbatim>\<open>new Date()\<close> at the call.\<close>

definition saveUser :: "'w UserModel \<Rightarrow> User \<Rightarrow> date \<Rightarrow> (jsobj, 'w) promise" where
  "saveUser M user now =
     try_catch
       (await (user_findOne M (username user)) (\<lambda>existingUser.
          if existingUser \<noteq> None then resolve (error_obj ''Username already exists'')
          else
            await (user_create M
                     \<lparr>username = username user, password = password user,
                      u_id = None, dateJoined = now\<rparr>) (\<lambda>newUser.
              resolve (safe_user newUser))))
       (\<lambda>error. resolve (error_obj ''Failed to save user''))"

definition getUserByUsername :: "'w UserModel \<Rightarrow> string \<Rightarrow> (jsobj, 'w) promise" where
  "getUserByUsername M name =
     try_catch
       (await (user_findOne M name) (\<lambda>found.
          case found of
            None \<Rightarrow> resolve (error_obj ''User not found'')
          | Some user \<Rightarrow> resolve (safe_user user)))
       (\<lambda>error. resolve (error_obj ''Failed to get user''))"

definition loginUser :: "'w UserModel \<Rightarrow> UserCredentials \<Rightarrow> (jsobj, 'w) promise" where
  "loginUser M loginCredentials =
     try_catch
       (await (user_findOne M (username loginCredentials)) (\<lambda>found.
          case found of
            None \<Rightarrow> resolve (error_obj ''Invalid username or password'')
          | Some user \<Rightarrow>
              if password user \<noteq> password loginCredentials
              then resolve (error_obj ''Invalid username or password'')
              else resolve (safe_user user)))
       (\<lambda>error. resolve (error_obj ''Failed to login''))"

definition deleteUserByUsername :: "'w UserModel \<Rightarrow> string \<Rightarrow> (jsobj, 'w) promise" where
  "deleteUserByUsername M name =
     try_catch
       (await (user_findOneAndDelete M name) (\<lambda>found.
          case found of
            None \<Rightarrow> resolve (error_obj ''User not found'')
          | Some user \<Rightarrow> resolve (safe_user user)))
       (\<lambda>error. resolve (error_obj ''Failed to delete user''))"

definition updateUser :: "'w UserModel \<Rightarrow> string \<Rightarrow> UserUpdates \<Rightarrow> (jsobj, 'w) promise" where
  "updateUser M name updates =
     try_catch
       (await (user_findOneAndUpdate M name updates) (\<lambda>found.
          case found of
            None \<Rightarrow> resolve (error_obj ''User not found'')
          | Some user \<Rightarrow> resolve (safe_user user)))
       (\<lambda>error. resolve (error_obj ''Failed to update user''))"

section \<open>The message service\<close>

definition saveMessage :: "'w MessageModel \<Rightarrow> Message \<Rightarrow> date \<Rightarrow> (MessageResponse, 'w) promise" where
  "saveMessage M message now =
     try_catch
       (await (message_create M
                 \<lparr>m_id = None, msg = msg message, msgFrom = msgFrom message,
                  msgDateTime = (case msgDateTime message of
                                   None \<Rightarrow> Some now | Some d \<Rightarrow> Some d)\<rparr>) (\<lambda>newMessage.
          resolve (SavedMessage newMessage)))
       (\<lambda>error. resolve (MessageError ''Failed to save message''))"

definition getMessages :: "'w MessageModel \<Rightarrow> (Message list, 'w) promise" where
  "getMessages M =
     try_catch
       (await (message_find_sort_msgDateTime M 1) (\<lambda>messages. resolve messages))
       (\<lambda>error. resolve [])"

section \<open>The HTTP boundary\<close>

text \<open>
  What a handler hands to \<open>res\<close>: \<^verbatim>\<open>res.status(n).send(text)\<close> or
  \<^verbatim>\<open>res.status(n).json(value)\<close>.
\<close>

datatype ResBody = Text string | Json jsobj | JsonMessage MessageResponse

record Response =
  status :: nat
  body :: ResBody

text \<open>
  The body of a \<open>UserRequest\<close>. It is parsed from JSON that the client wrote, so
  either field may be missing (\<open>None\<close>, read as \<open>undefined\<close>) or empty.
\<close>

record UserRequest =
  req_username :: "string option"
  req_password :: "string option"

text \<open>JavaScript's truthiness of a string that may be \<open>undefined\<close>.\<close>

definition truthy :: "string option \<Rightarrow> bool" where
  "truthy v = (case v of None \<Rightarrow> False | Some s \<Rightarrow> s \<noteq> [])"

text \<open>
  \<open>String.prototype.trim\<close> strips white space and line terminators from both ends:
  among the characters below 256 these are TAB, LF, VT, FF, CR, SP and NBSP.
\<close>

definition is_white_space :: "char \<Rightarrow> bool" where
  "is_white_space c =
     (c \<in> set [CHR 0x09, CHR 0x0A, CHR 0x0B, CHR 0x0C, CHR 0x0D, CHR 0x20, CHR 0xA0])"

definition trim :: "string \<Rightarrow> string" where
  "trim s = rev (dropWhile is_white_space (rev (dropWhile is_white_space s)))"

definition isUserBodyValid :: "UserRequest \<Rightarrow> bool" where
  "isUserBodyValid req =
     (case (req_username req, req_password req) of
        (Some name, Some pass) \<Rightarrow>
          truthy (Some name) \<and> truthy (Some pass) \<and>
          length (trim name) > 0 \<and> length pass > 0
      | _ \<Rightarrow> False)"

text \<open>
  \<open>now_c\<close> is the \<^verbatim>\<open>new Date()\<close> of the handler, \<open>now_s\<close> the one of \<open>saveUser\<close>.
  \<open>name\<close> and \<open>pass\<close> are the \<open>username\<close> and \<open>password\<close> that the handler
  takes out of the body. After \<open>isUserBodyValid\<close> both are strings; the last branch
  of the destructuring is never taken.
\<close>

definition createUser ::
  "'w UserModel \<Rightarrow> UserRequest \<Rightarrow> date \<Rightarrow> date \<Rightarrow> (Response, 'w) promise" where
  "createUser M req now_c now_s =
     try_catch
       (if \<not> isUserBodyValid req
        then resolve \<lparr>status = 400, body = Text ''Invalid user body''\<rparr>
        else
          (case (req_username req, req_password req) of
             (Some name, Some pass) \<Rightarrow>
               await (saveUser M \<lparr>username = name, password = pass,
                                  u_id = None, dateJoined = now_c\<rparr> now_s) (\<lambda>result.
                 if has_key ''error'' result then
                   (if get_prop result ''error'' = JString ''Username already exists''
                    then resolve \<lparr>status = 400, body = Json result\<rparr>
                    else resolve \<lparr>status = 500, body = Json result\<rparr>)
                 else resolve \<lparr>status = 200, body = Json result\<rparr>)
           | _ \<Rightarrow> reject (Error ''unreachable'')))
       (\<lambda>error. resolve \<lparr>status = 500, body = Json (error_obj ''Internal server error'')\<rparr>)"

definition userLogin :: "'w UserModel \<Rightarrow> UserRequest \<Rightarrow> (Response, 'w) promise" where
  "userLogin M req =
     try_catch
       (if \<not> isUserBodyValid req
        then resolve \<lparr>status = 400, body = Text ''Invalid user body''\<rparr>
        else
          (case (req_username req, req_password req) of
             (Some name, Some pass) \<Rightarrow>
               await (loginUser M \<lparr>username = name, password = pass\<rparr>) (\<lambda>result.
                 if has_key ''error'' result then
                   (if get_prop result ''error'' = JString ''Invalid username or password''
                    then resolve \<lparr>status = 401, body = Json result\<rparr>
                    else resolve \<lparr>status = 500, body = Json result\<rparr>)
                 else resolve \<lparr>status = 200, body = Json result\<rparr>)
           | _ \<Rightarrow> reject (Error ''unreachable'')))
       (\<lambda>error. resolve \<lparr>status = 500, body = Json (error_obj ''Internal server error'')\<rparr>)"

text \<open>
  \<open>resetPassword\<close> tests \<^verbatim>\<open>!username || !password\<close> and nothing else; it passes
  \<^verbatim>\<open>{ password }\<close> as the updates.
\<close>

definition resetPassword :: "'w UserModel \<Rightarrow> UserRequest \<Rightarrow> (Response, 'w) promise" where
  "resetPassword M req =
     try_catch
       (if \<not> truthy (req_username req) \<or> \<not> truthy (req_password req)
        then resolve \<lparr>status = 400, body = Text ''Invalid user body''\<rparr>
        else
          (case (req_username req, req_password req) of
             (Some name, Some pass) \<Rightarrow>
               await (updateUser M name
                        \<lparr>set_username = None, set_password = Some pass,
                         set_id = None, set_dateJoined = None\<rparr>) (\<lambda>result.
                 if has_key ''error'' result then
                   (if get_prop result ''error'' = JString ''User not found''
                    then resolve \<lparr>status = 404, body = Json result\<rparr>
                    else resolve \<lparr>status = 500, body = Json result\<rparr>)
                 else resolve \<lparr>status = 200, body = Json result\<rparr>)
           | _ \<Rightarrow> reject (Error ''unreachable'')))
       (\<lambda>error. resolve \<lparr>status = 500, body = Json (error_obj ''Internal server error'')\<rparr>)"

text \<open>
  The message controller is built around a socket. \<open>emit\<close> is fire and forget: it
  changes the world (the subscribers hear of the event) and returns nothing. The payload
  of the one event the controller emits is \<^verbatim>\<open>{ msg: result }\<close>.
\<close>

datatype payload = Payload_msg Message

record 'w FakeSOSocket =
  emit :: "string \<Rightarrow> payload \<Rightarrow> 'w \<Rightarrow> 'w"

definition perform :: "('w \<Rightarrow> 'w) \<Rightarrow> (unit, 'w) promise" where
  "perform f w = (Inr (), f w)"

text \<open>
  The body of an \<open>AddMessageRequest\<close>; the request's own \<open>body\<close> may be missing too.
\<close>

record AddMessageBody =
  messageToAdd :: "Message option"

definition isRequestValid :: "AddMessageBody option \<Rightarrow> bool" where
  "isRequestValid req =
     (case req of None \<Rightarrow> False | Some b \<Rightarrow> messageToAdd b \<noteq> None)"

definition isMessageValid :: "Message \<Rightarrow> bool" where
  "isMessageValid message =
     (truthy (Some (msg message)) \<and> length (trim (msg message)) > 0 \<and>
      truthy (Some (msgFrom message)) \<and> length (trim (msgFrom message)) > 0)"

definition addMessageRoute ::
  "'w FakeSOSocket \<Rightarrow> 'w MessageModel \<Rightarrow> AddMessageBody option \<Rightarrow> date \<Rightarrow> (Response, 'w) promise" where
  "addMessageRoute socket M req now =
     try_catch
       (if \<not> isRequestValid req
        then resolve \<lparr>status = 400, body = Text ''Invalid request''\<rparr>
        else
          (case req of
             Some b \<Rightarrow>
               (case messageToAdd b of
                  Some message \<Rightarrow>
                    if \<not> isMessageValid message
                    then resolve \<lparr>status = 400, body = Text ''Invalid message''\<rparr>
                    else
                      await (saveMessage M message now) (\<lambda>result.
                        case result of
                          MessageError e \<Rightarrow> resolve \<lparr>status = 500, body = JsonMessage result\<rparr>
                        | SavedMessage saved \<Rightarrow>
                            await (perform (emit socket ''messageUpdate'' (Payload_msg saved)))
                              (\<lambda>_. resolve \<lparr>status = 200, body = JsonMessage result\<rparr>))
                | None \<Rightarrow> reject (Error ''unreachable''))
           | None \<Rightarrow> reject (Error ''unreachable'')))
       (\<lambda>error. resolve \<lparr>status = 500, body = Json (error_obj ''Failed to add message'')\<rparr>)"

section \<open>A store in memory\<close>

text \<open>
  Modelled from the spec: the world behind the store and the socket, both missing from
  the sources: the two collections in insertion order, the next identifier the store
  hands out, and the events that the socket has published.
\<close>

record world =
  users :: "User list"
  messages :: "Message list"
  next_id :: ObjectId
  emitted :: "(string \<times> payload) list"

text \<open>
  Modelled from the spec: an update or a delete by filter acts on the first document that
  matches the filter.
\<close>

fun update_first :: "('a \<Rightarrow> bool) \<Rightarrow> ('a \<Rightarrow> 'a) \<Rightarrow> 'a list \<Rightarrow> 'a list" where
  "update_first P f [] = []"
| "update_first P f (x # xs) = (if P x then f x # xs else x # update_first P f xs)"

fun delete_first :: "('a \<Rightarrow> bool) \<Rightarrow> 'a list \<Rightarrow> 'a list" where
  "delete_first P [] = []"
| "delete_first P (x # xs) = (if P x then xs else x # delete_first P xs)"

text \<open>
  Modelled from the spec: \<open>$set\<close> "applies an arbitrary subset of field changes": the
  fields that the updates carry replace those of the document.
\<close>

definition apply_set :: "UserUpdates \<Rightarrow> User \<Rightarrow> User" where
  "apply_set updates user =
     \<lparr>username = (case set_username updates of None \<Rightarrow> username user | Some v \<Rightarrow> v),
      password = (case set_password updates of None \<Rightarrow> password user | Some v \<Rightarrow> v),
      u_id = (case set_id updates of None \<Rightarrow> u_id user | Some v \<Rightarrow> Some v),
      dateJoined = (case set_dateJoined updates of None \<Rightarrow> dateJoined user | Some v \<Rightarrow> v)\<rparr>"

text \<open>
  Modelled from the spec: the document store behind \<open>UserModel\<close>, which is missing from
  the sources. The spec treats it as "a generic CRUD collection with
  find/create/update/delete-by-filter operations": the identifier is "assigned by the
  store on creation, immutable", uniqueness of usernames is "enforced by service
  pre-check, not by store constraint", and an update "applies an arbitrary subset of
  field changes (including username itself) to the matching record". A filter selects
  the first matching document; a \<open>$set\<close> that would change the identifier is rejected.
\<close>

definition UserModel_mem :: "world UserModel" where
  "UserModel_mem =
     \<lparr>user_findOne = (\<lambda>name w. (Inr (find (\<lambda>d. username d = name) (users w)), w)),
      user_create = (\<lambda>doc w.
        let d = doc\<lparr>u_id := Some (next_id w)\<rparr>
        in (Inr d, w\<lparr>users := users w @ [d], next_id := Suc (next_id w)\<rparr>)),
      user_findOneAndDelete = (\<lambda>name w.
        case find (\<lambda>d. username d = name) (users w) of
          None \<Rightarrow> (Inr None, w)
        | Some d \<Rightarrow>
            (Inr (Some d), w\<lparr>users := delete_first (\<lambda>d. username d = name) (users w)\<rparr>)),
      user_findOneAndUpdate = (\<lambda>name updates w.
        case find (\<lambda>d. username d = name) (users w) of
          None \<Rightarrow> (Inr None, w)
        | Some d \<Rightarrow>
            if set_id updates \<noteq> None \<and> set_id updates \<noteq> u_id d
            then (Inl (Error ''immutable field _id''), w)
            else
              (Inr (Some (apply_set updates d)),
               w\<lparr>users := update_first (\<lambda>d. username d = name) (apply_set updates) (users w)\<rparr>))\<rparr>"

text \<open>
  Modelled from the spec: the document store behind \<open>MessageModel\<close>, which is missing
  from the sources. \<open>create\<close> assigns the identifier and appends; a query sorted on
  \<open>msgDateTime\<close> returns every stored message, ascending for the direction \<open>1\<close>,
  descending for \<open>-1\<close> (a document without the field sorts before every date), and is
  rejected for any other direction.
\<close>

definition MessageModel_mem :: "world MessageModel" where
  "MessageModel_mem =
     \<lparr>message_create = (\<lambda>doc w.
        let d = doc\<lparr>m_id := Some (next_id w)\<rparr>
        in (Inr d, w\<lparr>messages := messages w @ [d], next_id := Suc (next_id w)\<rparr>)),
      message_find_sort_msgDateTime = (\<lambda>dir w.
        if dir = 1 then (Inr (sort_key msgDateTime (messages w)), w)
        else if dir = - 1 then (Inr (rev (sort_key msgDateTime (messages w))), w)
        else (Inl (Error ''Invalid sort value''), w))\<rparr>"

text \<open>
  Modelled from the spec: the real-time transport, "a generic publish mechanism:
  \<open>emit(event, payload)\<close>". The socket of the in-memory world records each event it is
  asked to publish.
\<close>

definition socket_mem :: "world FakeSOSocket" where
  "socket_mem = \<lparr>emit = (\<lambda>event p w. w\<lparr>emitted := emitted w @ [(event, p)]\<rparr>)\<rparr>"

text \<open>A store whose every call is rejected, as a database that is down.\<close>

definition UserModel_down :: "'w UserModel" where
  "UserModel_down =
     \<lparr>user_findOne = (\<lambda>name. reject (Error ''Database error'')),
      user_create = (\<lambda>doc. reject (Error ''Database error'')),
      user_findOneAndDelete = (\<lambda>name. reject (Error ''Database error'')),
      user_findOneAndUpdate = (\<lambda>name updates. reject (Error ''Database error''))\<rparr>"

definition MessageModel_down :: "'w MessageModel" where
  "MessageModel_down =
     \<lparr>message_create = (\<lambda>doc. reject (Error ''Database error'')),
      message_find_sort_msgDateTime = (\<lambda>dir. reject (Error ''Database error''))\<rparr>"

section \<open>Sample worlds\<close>

text \<open>
  One stored user, joined on 2024-12-03; a world whose only user has a blank username;
  two messages dated 2024-06-04 and 2024-06-05, stored with the later one first.
\<close>

definition world0 :: world where
  "world0 = \<lparr>users = [\<lparr>username = ''user1'', password = ''password'', u_id = Some 0,
                       dateJoined = 1733184000000\<rparr>],
            messages = [], next_id = 1, emitted = []\<rparr>"

definition world_blank :: world where
  "world_blank = \<lparr>users = [\<lparr>username = ''   '', password = ''old'', u_id = Some 0,
                            dateJoined = 1733184000000\<rparr>],
                 messages = [], next_id = 1, emitted = []\<rparr>"

definition message1 :: Message where
  "message1 = \<lparr>m_id = Some 1, msg = ''Hello'', msgFrom = ''User1'',
               msgDateTime = Some 1717459200000\<rparr>"

definition message2 :: Message where
  "message2 = \<lparr>m_id = Some 2, msg = ''Hi'', msgFrom = ''User2'',
               msgDateTime = Some 1717545600000\<rparr>"

definition world_messages :: world where
  "world_messages = \<lparr>users = [], messages = [message2, message1], next_id = 3, emitted = []\<rparr>"

section \<open>Outcomes of the services, for any store\<close>

lemma fst_try_catch_resolve:
  "fst (try_catch p (\<lambda>e. resolve c) w) = (case fst (p w) of Inl e \<Rightarrow> Inr c | Inr a \<Rightarrow> Inr a)"
  by (simp add: try_catch_def resolve_def split: prod.split sum.split)

lemma fst_await:
  "fst (await p f w) = (case fst (p w) of Inl e \<Rightarrow> Inl e | Inr a \<Rightarrow> fst (f a (snd (p w))))"
  by (simp add: await_def split: prod.split sum.split)

lemma fst_resolve: "fst (resolve a w) = Inr a"
  by (simp add: resolve_def)

lemma saveUser_outcome:
  "fst (saveUser M user now w) = Inr (error_obj ''Username already exists'')
      \<or> fst (saveUser M user now w) = Inr (error_obj ''Failed to save user'')
      \<or> (\<exists>d. fst (saveUser M user now w) = Inr (safe_user d))"
  by (simp add: saveUser_def fst_try_catch_resolve fst_await fst_resolve split: sum.split) blast

lemma getUserByUsername_outcome:
  "fst (getUserByUsername M name w) = Inr (error_obj ''User not found'')
      \<or> fst (getUserByUsername M name w) = Inr (error_obj ''Failed to get user'')
      \<or> (\<exists>d. fst (getUserByUsername M name w) = Inr (safe_user d))"
  by (simp add: getUserByUsername_def fst_try_catch_resolve fst_await fst_resolve
      split: sum.split option.split) blast

lemma loginUser_outcome:
  "fst (loginUser M c w) = Inr (error_obj ''Invalid username or password'')
      \<or> fst (loginUser M c w) = Inr (error_obj ''Failed to login'')
      \<or> (\<exists>d. fst (loginUser M c w) = Inr (safe_user d))"
  by (simp add: loginUser_def fst_try_catch_resolve fst_await fst_resolve
      split: sum.split option.split) blast

lemma deleteUserByUsername_outcome:
  "fst (deleteUserByUsername M name w) = Inr (error_obj ''User not found'')
      \<or> fst (deleteUserByUsername M name w) = Inr (error_obj ''Failed to delete user'')
      \<or> (\<exists>d. fst (deleteUserByUsername M name w) = Inr (safe_user d))"
  by (simp add: deleteUserByUsername_def fst_try_catch_resolve fst_await fst_resolve
      split: sum.split option.split) blast

lemma updateUser_outcome:
  "fst (updateUser M name updates w) = Inr (error_obj ''User not found'')
      \<or> fst (updateUser M name updates w) = Inr (error_obj ''Failed to update user'')
      \<or> (\<exists>d. fst (updateUser M name updates w) = Inr (safe_user d))"
  by (simp add: updateUser_def fst_try_catch_resolve fst_await fst_resolve
      split: sum.split option.split) blast

lemma saveMessage_outcome:
  "fst (saveMessage M message now w) = Inr (MessageError ''Failed to save message'')
      \<or> (\<exists>d. fst (saveMessage M message now w) = Inr (SavedMessage d))"
  by (simp add: saveMessage_def fst_try_catch_resolve fst_await fst_resolve
      split: sum.split)

lemma getMessages_outcome:
  "\<exists>ms. fst (getMessages M w) = Inr ms"
  by (simp add: getMessages_def fst_try_catch_resolve fst_await fst_resolve
      split: sum.split)

lemma keys_error_obj: "keys (error_obj m) = [''error'']"
  by (simp add: keys_def error_obj_def)

lemma keys_safe_user: "keys (safe_user d) = [''_id'', ''username'', ''dateJoined'']"
  by (simp add: keys_def safe_user_def)

lemma Inr_outcome_keys:
  assumes "r = Inr (error_obj m1) \<or> r = Inr (error_obj m2) \<or> (\<exists>d. r = Inr (safe_user d))"
    and "r = Inr v"
  shows "\<not> has_key ''password'' v \<and>
         (keys v = [''error''] \<or> keys v = [''_id'', ''username'', ''dateJoined''])"
proof -
  from assms have "v = error_obj m1 \<or> v = error_obj m2 \<or> (\<exists>d. v = safe_user d)"
    by blast
  then show ?thesis
    by (elim disjE exE) (simp_all add: has_key_def keys_error_obj keys_safe_user)
qed

text \<open>What each service answers when every store call is rejected.\<close>

lemma services_when_store_is_down:
  "fst (saveUser UserModel_down user now w) = Inr (error_obj ''Failed to save user'')"
  "fst (getUserByUsername UserModel_down name w) = Inr (error_obj ''Failed to get user'')"
  "fst (loginUser UserModel_down credentials w) = Inr (error_obj ''Failed to login'')"
  "fst (deleteUserByUsername UserModel_down name w) = Inr (error_obj ''Failed to delete user'')"
  "fst (updateUser UserModel_down name updates w) = Inr (error_obj ''Failed to update user'')"
  "fst (saveMessage MessageModel_down message now w) = Inr (MessageError ''Failed to save message'')"
  "fst (getMessages MessageModel_down w) = Inr []"
  by (simp_all add: saveUser_def getUserByUsername_def loginUser_def deleteUserByUsername_def
      updateUser_def saveMessage_def getMessages_def UserModel_down_def MessageModel_down_def
      try_catch_def await_def resolve_def reject_def)

text \<open>A body that \<open>isUserBodyValid\<close> accepts carries both fields.\<close>

lemma isUserBodyValid_fields:
  "isUserBodyValid req \<Longrightarrow> \<exists>name pass. req_username req = Some name \<and> req_password req = Some pass"
  by (auto simp: isUserBodyValid_def split: option.splits)

section \<open>The services on the in-memory store\<close>

lemma find_username_None:
  "(find (\<lambda>d. username d = name) us = None) = (\<forall>d\<in>set us. username d \<noteq> name)"
  by (auto simp: find_None_iff)

lemma saveUser_mem:
  "saveUser UserModel_mem user now w =
     (if find (\<lambda>d. username d = username user) (users w) \<noteq> None
      then (Inr (error_obj ''Username already exists''), w)
      else (Inr (safe_user \<lparr>username = username user, password = password user,
                            u_id = Some (next_id w), dateJoined = now\<rparr>),
            w\<lparr>users := users w @ [\<lparr>username = username user, password = password user,
                                    u_id = Some (next_id w), dateJoined = now\<rparr>],
              next_id := Suc (next_id w)\<rparr>))"
  by (simp add: saveUser_def UserModel_mem_def try_catch_def await_def resolve_def Let_def)

lemma loginUser_mem:
  "loginUser UserModel_mem c w =
     (case find (\<lambda>d. username d = username c) (users w) of
        None \<Rightarrow> (Inr (error_obj ''Invalid username or password''), w)
      | Some d \<Rightarrow>
          if password d \<noteq> password c
          then (Inr (error_obj ''Invalid username or password''), w)
          else (Inr (safe_user d), w))"
  by (simp add: loginUser_def UserModel_mem_def try_catch_def await_def resolve_def
      split: option.split)

lemma getUserByUsername_mem:
  "getUserByUsername UserModel_mem name w =
     (case find (\<lambda>d. username d = name) (users w) of
        None \<Rightarrow> (Inr (error_obj ''User not found''), w)
      | Some d \<Rightarrow> (Inr (safe_user d), w))"
  by (simp add: getUserByUsername_def UserModel_mem_def try_catch_def await_def resolve_def
      split: option.split)

lemma deleteUserByUsername_mem:
  "deleteUserByUsername UserModel_mem name w =
     (case find (\<lambda>d. username d = name) (users w) of
        None \<Rightarrow> (Inr (error_obj ''User not found''), w)
      | Some d \<Rightarrow>
          (Inr (safe_user d), w\<lparr>users := delete_first (\<lambda>d. username d = name) (users w)\<rparr>))"
  by (simp add: deleteUserByUsername_def UserModel_mem_def try_catch_def await_def resolve_def
      split: option.split)

lemma updateUser_mem:
  "updateUser UserModel_mem name updates w =
     (case find (\<lambda>d. username d = name) (users w) of
        None \<Rightarrow> (Inr (error_obj ''User not found''), w)
      | Some d \<Rightarrow>
          if set_id updates \<noteq> None \<and> set_id updates \<noteq> u_id d
          then (Inr (error_obj ''Failed to update user''), w)
          else (Inr (safe_user (apply_set updates d)),
                w\<lparr>users := update_first (\<lambda>d. username d = name) (apply_set updates) (users w)\<rparr>))"
  by (simp add: updateUser_def UserModel_mem_def try_catch_def await_def resolve_def
      split: option.split)

lemma saveMessage_create:
  "saveMessage M m now w =
     (case message_create M
             \<lparr>m_id = None, msg = msg m, msgFrom = msgFrom m,
              msgDateTime = Some (case msgDateTime m of None \<Rightarrow> now | Some t \<Rightarrow> t)\<rparr> w of
        (Inl e, w1) \<Rightarrow> (Inr (MessageError ''Failed to save message''), w1)
      | (Inr d, w1) \<Rightarrow> (Inr (SavedMessage d), w1))"
proof -
  have "(case msgDateTime m of None \<Rightarrow> Some now | Some d \<Rightarrow> Some d)
        = Some (case msgDateTime m of None \<Rightarrow> now | Some t \<Rightarrow> t)"
    by (simp split: option.split)
  then show ?thesis
    by (simp add: saveMessage_def try_catch_def await_def resolve_def
        split: prod.split sum.split)
qed

lemma getMessages_mem:
  "getMessages MessageModel_mem w = (Inr (sort_key msgDateTime (messages w)), w)"
  by (simp add: getMessages_def MessageModel_mem_def try_catch_def await_def resolve_def)

lemma getMessages_rejected:
  "fst (message_find_sort_msgDateTime M 1 w) = Inl e \<Longrightarrow>
   getMessages M w = (Inr [], snd (message_find_sort_msgDateTime M 1 w))"
  by (cases "message_find_sort_msgDateTime M 1 w")
     (simp add: getMessages_def try_catch_def await_def resolve_def)

lemma subseq_delete_first: "subseq (delete_first P xs) xs"
  by (induction xs) auto

lemma map_update_first_found:
  "find P xs = Some d \<Longrightarrow> g (f d) = g d \<Longrightarrow> map g (update_first P f xs) = map g xs"
  by (induction xs) (auto split: if_splits)

lemma updateUser_mem_keeps:
  assumes "set_dateJoined updates = None"
  shows "map (\<lambda>d. (u_id d, dateJoined d)) (users (snd (updateUser UserModel_mem name updates w)))
       = map (\<lambda>d. (u_id d, dateJoined d)) (users w)"
proof (cases "find (\<lambda>d. username d = name) (users w)")
  case None
  then show ?thesis by (simp add: updateUser_mem)
next
  case (Some d)
  show ?thesis
  proof (cases "set_id updates \<noteq> None \<and> set_id updates \<noteq> u_id d")
    case True
    with Some show ?thesis by (simp add: updateUser_mem)
  next
    case False
    then have "(u_id (apply_set updates d), dateJoined (apply_set updates d))
             = (u_id d, dateJoined d)"
      using assms by (auto simp: apply_set_def split: option.split)
    with Some have "map (\<lambda>d. (u_id d, dateJoined d))
        (update_first (\<lambda>d. username d = name) (apply_set updates) (users w))
      = map (\<lambda>d. (u_id d, dateJoined d)) (users w)"
      by (rule map_update_first_found)
    with Some False show ?thesis by (simp add: updateUser_mem)
  qed
qed

lemma map_update_first_same:
  "find P xs = Some d \<Longrightarrow> g (f d) = g (f' d) \<Longrightarrow>
   map g (update_first P f xs) = map g (update_first P f' xs)"
  by (induction xs) (auto split: if_splits)

lemma updateUser_mem_overwrites:
  assumes "find (\<lambda>u. username u = name) (users w) = Some d"
    and "set_dateJoined updates = Some t"
    and "set_id updates = None \<or> set_id updates = u_id d"
  shows "map (\<lambda>u. (u_id u, dateJoined u)) (users (snd (updateUser UserModel_mem name updates w)))
       = map (\<lambda>u. (u_id u, dateJoined u))
           (update_first (\<lambda>u. username u = name) (\<lambda>u. u\<lparr>dateJoined := t\<rparr>) (users w))"
proof -
  from assms(2,3) have "(u_id (apply_set updates d), dateJoined (apply_set updates d))
      = (u_id (d\<lparr>dateJoined := t\<rparr>), dateJoined (d\<lparr>dateJoined := t\<rparr>))"
    by (auto simp: apply_set_def split: option.split)
  with assms(1) have "map (\<lambda>u. (u_id u, dateJoined u))
        (update_first (\<lambda>u. username u = name) (apply_set updates) (users w))
      = map (\<lambda>u. (u_id u, dateJoined u))
        (update_first (\<lambda>u. username u = name) (\<lambda>u. u\<lparr>dateJoined := t\<rparr>) (users w))"
    by (rule map_update_first_same)
  moreover from assms(1,3) have "users (snd (updateUser UserModel_mem name updates w))
      = update_first (\<lambda>u. username u = name) (apply_set updates) (users w)"
    by (auto simp: updateUser_mem)
  ultimately show ?thesis by simp
qed

lemma updateUser_mem_not_applied:
  assumes "find (\<lambda>u. username u = name) (users w) = None
         \<or> (find (\<lambda>u. username u = name) (users w) = Some d \<and>
            set_id updates \<noteq> None \<and> set_id updates \<noteq> u_id d)"
  shows "snd (updateUser UserModel_mem name updates w) = w"
  using assms by (auto simp: updateUser_mem)

lemma trim_blank: "trim ''   '' = []"
  by (simp add: trim_def is_white_space_def)

section \<open>The claims\<close>

text \<open>
  C1. On the in-memory store, \<open>saveUser\<close> answers \<open>Username already exists\<close> and leaves
  the store as it is whenever some stored user has the username of the new user, whatever
  the passwords are. Otherwise it appends one record that carries the username and the
  password given, the identifier assigned by the store and \<open>dateJoined = now\<close> (the
  \<open>dateJoined\<close> of the argument plays no part), and it returns the safe projection of
  that record.
\<close>

theorem saveUser_creates_unless_username_exists:
  "saveUser UserModel_mem user now w =
     (if \<exists>d\<in>set (users w). username d = username user
      then (Inr (error_obj ''Username already exists''), w)
      else (Inr (safe_user \<lparr>username = username user, password = password user,
                            u_id = Some (next_id w), dateJoined = now\<rparr>),
            w\<lparr>users := users w @ [\<lparr>username = username user, password = password user,
                                    u_id = Some (next_id w), dateJoined = now\<rparr>],
              next_id := Suc (next_id w)\<rparr>))"
proof (cases "\<exists>d\<in>set (users w). username d = username user")
  case True
  then have "find (\<lambda>d. username d = username user) (users w) \<noteq> None"
    by (simp add: find_username_None)
  with True show ?thesis by (simp add: saveUser_mem)
next
  case False
  then have "find (\<lambda>d. username d = username user) (users w) = None"
    by (simp add: find_username_None)
  with False show ?thesis by (simp add: saveUser_mem)
qed

theorem saveUser_creates_unless_username_exists_witness:
  "saveUser UserModel_mem
     \<lparr>username = ''user1'', password = ''other'', u_id = None, dateJoined = 7\<rparr> 42 world0
     = (Inr [(''error'', JString ''Username already exists'')], world0)
   \<and> saveUser UserModel_mem
     \<lparr>username = ''user2'', password = ''pw'', u_id = None, dateJoined = 7\<rparr> 42 world0
     = (Inr [(''_id'', JObjectId 1), (''username'', JString ''user2''), (''dateJoined'', JDate 42)],
        \<lparr>users = [\<lparr>username = ''user1'', password = ''password'', u_id = Some 0,
                    dateJoined = 1733184000000\<rparr>,
                  \<lparr>username = ''user2'', password = ''pw'', u_id = Some 1, dateJoined = 42\<rparr>],
         messages = [], next_id = 2, emitted = []\<rparr>)"
  using saveUser_creates_unless_username_exists
     [of "\<lparr>username = ''user1'', password = ''other'', u_id = None, dateJoined = 7\<rparr>" 42 world0]
    saveUser_creates_unless_username_exists
     [of "\<lparr>username = ''user2'', password = ''pw'', u_id = None, dateJoined = 7\<rparr>" 42 world0]
  by (simp add: world0_def error_obj_def safe_user_def)

text \<open>
  C2. On the in-memory store, a login with the username of a stored user and a password
  other than the stored one, and a login with a username that no stored user has, return
  the same value, the error \<open>Invalid username or password\<close>, and leave the store as it
  is. A login with the username of a stored user and exactly the stored password returns
  the safe projection of that user.
\<close>

theorem loginUser_failures_indistinguishable:
  "(find (\<lambda>u. username u = username c1) (users w) = Some d \<and> password d \<noteq> password c1 \<and>
    (\<forall>u\<in>set (users w). username u \<noteq> username c2) \<longrightarrow>
      loginUser UserModel_mem c1 w = loginUser UserModel_mem c2 w \<and>
      loginUser UserModel_mem c2 w = (Inr (error_obj ''Invalid username or password''), w))
   \<and>
   (find (\<lambda>u. username u = username c) (users w) = Some d' \<and> password d' = password c \<longrightarrow>
      loginUser UserModel_mem c w = (Inr (safe_user d'), w))"
proof (intro conjI impI)
  assume a: "find (\<lambda>u. username u = username c1) (users w) = Some d \<and>
    password d \<noteq> password c1 \<and> (\<forall>u\<in>set (users w). username u \<noteq> username c2)"
  then have none: "find (\<lambda>u. username u = username c2) (users w) = None"
    by (simp add: find_username_None)
  from a have 1: "loginUser UserModel_mem c1 w = (Inr (error_obj ''Invalid username or password''), w)"
    by (simp add: loginUser_mem)
  from none have 2: "loginUser UserModel_mem c2 w = (Inr (error_obj ''Invalid username or password''), w)"
    by (simp add: loginUser_mem)
  from 1 2 show "loginUser UserModel_mem c1 w = loginUser UserModel_mem c2 w" by simp
  from 2 show "loginUser UserModel_mem c2 w = (Inr (error_obj ''Invalid username or password''), w)" .
next
  assume "find (\<lambda>u. username u = username c) (users w) = Some d' \<and> password d' = password c"
  then show "loginUser UserModel_mem c w = (Inr (safe_user d'), w)"
    by (simp add: loginUser_mem)
qed

theorem loginUser_failures_indistinguishable_witness:
  "loginUser UserModel_mem \<lparr>username = ''user1'', password = ''wrongpassword''\<rparr> world0
     = loginUser UserModel_mem \<lparr>username = ''nonexistent'', password = ''anypassword''\<rparr> world0 \<and>
   loginUser UserModel_mem \<lparr>username = ''nonexistent'', password = ''anypassword''\<rparr> world0
     = (Inr [(''error'', JString ''Invalid username or password'')], world0) \<and>
   loginUser UserModel_mem \<lparr>username = ''user1'', password = ''password''\<rparr> world0
     = (Inr [(''_id'', JObjectId 0), (''username'', JString ''user1''),
             (''dateJoined'', JDate 1733184000000)], world0)"
  using loginUser_failures_indistinguishable
    [where ?c1.0 = "\<lparr>username = ''user1'', password = ''wrongpassword''\<rparr>"
       and ?c2.0 = "\<lparr>username = ''nonexistent'', password = ''anypassword''\<rparr>"
       and c = "\<lparr>username = ''user1'', password = ''password''\<rparr>"
       and w = world0
       and d = "\<lparr>username = ''user1'', password = ''password'', u_id = Some 0,
                 dateJoined = 1733184000000\<rparr>"
       and d' = "\<lparr>username = ''user1'', password = ''password'', u_id = Some 0,
                  dateJoined = 1733184000000\<rparr>"]
  by (simp add: world0_def error_obj_def safe_user_def)

text \<open>
  C3. On the in-memory store, \<open>getMessages\<close> returns every stored message, each once, in
  non-decreasing order of \<open>msgDateTime\<close>, and leaves the store as it is; of two stored
  messages dated 2024-06-04 and 2024-06-05 the earlier one comes first, in whichever order
  they were inserted. For any store whose query is rejected, \<open>getMessages\<close> returns the
  empty list and does not reject.
\<close>

theorem getMessages_ascending:
  "(\<exists>ms. getMessages MessageModel_mem w = (Inr ms, w) \<and>
         sorted (map msgDateTime ms) \<and> mset ms = mset (messages w)) \<and>
   (msgDateTime m1 = Some 1717459200000 \<and> msgDateTime m2 = Some 1717545600000 \<and>
    (messages w = [m1, m2] \<or> messages w = [m2, m1]) \<longrightarrow>
      fst (getMessages MessageModel_mem w) = Inr [m1, m2]) \<and>
   (fst (message_find_sort_msgDateTime M 1 w') = Inl e \<longrightarrow>
      getMessages M w' = (Inr [], snd (message_find_sort_msgDateTime M 1 w')))"
proof (intro conjI impI)
  show "\<exists>ms. getMessages MessageModel_mem w = (Inr ms, w) \<and>
         sorted (map msgDateTime ms) \<and> mset ms = mset (messages w)"
    by (simp add: getMessages_mem)
next
  assume "msgDateTime m1 = Some 1717459200000 \<and> msgDateTime m2 = Some 1717545600000 \<and>
    (messages w = [m1, m2] \<or> messages w = [m2, m1])"
  then show "fst (getMessages MessageModel_mem w) = Inr [m1, m2]"
    by (auto simp: getMessages_mem)
next
  assume "fst (message_find_sort_msgDateTime M 1 w') = Inl e"
  then show "getMessages M w' = (Inr [], snd (message_find_sort_msgDateTime M 1 w'))"
    by (rule getMessages_rejected)
qed

theorem getMessages_ascending_witness:
  "fst (getMessages MessageModel_mem world_messages) = Inr [message1, message2] \<and>
   getMessages MessageModel_down world_messages = (Inr [], world_messages)"
  using getMessages_ascending [of world_messages message1 message2 MessageModel_down
      world_messages "Error ''Database error''"]
  by (simp add: world_messages_def message1_def message2_def MessageModel_down_def reject_def)

text \<open>
  C4, as the claim states it, fails: \<open>updateUser\<close> hands its whole partial-fields
  argument to \<open>$set\<close>, so an argument that carries a \<open>dateJoined\<close> and that the store
  accepts replaces the one of the matching user. Here the user who joined on 2024-12-03
  is moved to the epoch.
\<close>

theorem updateUser_changes_dateJoined_counterexample:
  "map dateJoined (users world0) = [1733184000000] \<and>
   map dateJoined (users (snd (updateUser UserModel_mem ''user1''
      \<lparr>set_username = None, set_password = None, set_id = None, set_dateJoined = Some 0\<rparr>
      world0))) = [0]"
  by (simp add: updateUser_mem world0_def apply_set_def)

text \<open>
  C4, amended. On the in-memory store, \<open>saveUser\<close> leaves the stored users as they are
  and at most appends records whose \<open>dateJoined\<close> is the current time;
  \<open>getUserByUsername\<close>, \<open>loginUser\<close>, \<open>saveMessage\<close> and \<open>getMessages\<close> leave the
  stored users as they are; \<open>deleteUserByUsername\<close> only removes. \<open>updateUser\<close>
  leaves the identifier and the \<open>dateJoined\<close> of every stored user as they are whenever
  its partial-fields argument carries no \<open>dateJoined\<close>, and it leaves the whole world as
  it is whenever no stored user has the given username or the store rejects the update
  (the argument carries an \<open>_id\<close> other than that of the matching user). When the
  argument carries a \<open>dateJoined\<close>, a stored user has the given username and the store
  accepts the update, the first stored user of that username gets that \<open>dateJoined\<close>,
  and every other stored user, and every identifier, stays as it is.
\<close>

theorem dateJoined_kept_unless_updated:
  "(\<exists>new. users (snd (saveUser UserModel_mem user now w)) = users w @ new \<and>
          (\<forall>d\<in>set new. dateJoined d = now)) \<and>
   users (snd (getUserByUsername UserModel_mem name w)) = users w \<and>
   users (snd (loginUser UserModel_mem credentials w)) = users w \<and>
   subseq (users (snd (deleteUserByUsername UserModel_mem name w))) (users w) \<and>
   users (snd (saveMessage MessageModel_mem message now w)) = users w \<and>
   users (snd (getMessages MessageModel_mem w)) = users w \<and>
   (set_dateJoined updates = None \<longrightarrow>
      map (\<lambda>d. (u_id d, dateJoined d)) (users (snd (updateUser UserModel_mem name updates w)))
      = map (\<lambda>d. (u_id d, dateJoined d)) (users w)) \<and>
   (find (\<lambda>u. username u = name) (users w) = None
    \<or> (find (\<lambda>u. username u = name) (users w) = Some d \<and>
        set_id updates \<noteq> None \<and> set_id updates \<noteq> u_id d) \<longrightarrow>
      snd (updateUser UserModel_mem name updates w) = w) \<and>
   (find (\<lambda>u. username u = name) (users w) = Some d \<and> set_dateJoined updates = Some t \<and>
    (set_id updates = None \<or> set_id updates = u_id d) \<longrightarrow>
      map (\<lambda>u. (u_id u, dateJoined u)) (users (snd (updateUser UserModel_mem name updates w)))
      = map (\<lambda>u. (u_id u, dateJoined u))
          (update_first (\<lambda>u. username u = name) (\<lambda>u. u\<lparr>dateJoined := t\<rparr>) (users w)))"
proof (intro conjI impI)
  show "\<exists>new. users (snd (saveUser UserModel_mem user now w)) = users w @ new \<and>
          (\<forall>d\<in>set new. dateJoined d = now)"
    by (simp add: saveUser_mem)
  show "users (snd (getUserByUsername UserModel_mem name w)) = users w"
    by (simp add: getUserByUsername_mem split: option.split)
  show "users (snd (loginUser UserModel_mem credentials w)) = users w"
    by (simp add: loginUser_mem split: option.split)
  show "subseq (users (snd (deleteUserByUsername UserModel_mem name w))) (users w)"
    by (simp add: deleteUserByUsername_mem subseq_delete_first split: option.split)
  show "users (snd (saveMessage MessageModel_mem message now w)) = users w"
    by (simp add: saveMessage_create MessageModel_mem_def Let_def)
  show "users (snd (getMessages MessageModel_mem w)) = users w"
    by (simp add: getMessages_mem)
next
  assume "set_dateJoined updates = None"
  then show "map (\<lambda>d. (u_id d, dateJoined d)) (users (snd (updateUser UserModel_mem name updates w)))
      = map (\<lambda>d. (u_id d, dateJoined d)) (users w)"
    by (rule updateUser_mem_keeps)
next
  assume "find (\<lambda>u. username u = name) (users w) = None
    \<or> (find (\<lambda>u. username u = name) (users w) = Some d \<and>
        set_id updates \<noteq> None \<and> set_id updates \<noteq> u_id d)"
  then show "snd (updateUser UserModel_mem name updates w) = w"
    by (rule updateUser_mem_not_applied)
next
  assume a: "find (\<lambda>u. username u = name) (users w) = Some d \<and> set_dateJoined updates = Some t \<and>
    (set_id updates = None \<or> set_id updates = u_id d)"
  from a have found: "find (\<lambda>u. username u = name) (users w) = Some d"
    and carried: "set_dateJoined updates = Some t"
    and accepted: "set_id updates = None \<or> set_id updates = u_id d"
    by blast+
  from found carried accepted
  show "map (\<lambda>u. (u_id u, dateJoined u)) (users (snd (updateUser UserModel_mem name updates w)))
      = map (\<lambda>u. (u_id u, dateJoined u))
          (update_first (\<lambda>u. username u = name) (\<lambda>u. u\<lparr>dateJoined := t\<rparr>) (users w))"
    by (rule updateUser_mem_overwrites)
qed

theorem dateJoined_kept_unless_updated_witness:
  "users (snd (saveUser UserModel_mem
      \<lparr>username = ''user2'', password = ''pw'', u_id = None, dateJoined = 7\<rparr> 42 world0))
    = users world0 @ [\<lparr>username = ''user2'', password = ''pw'', u_id = Some 1, dateJoined = 42\<rparr>] \<and>
   users (snd (updateUser UserModel_mem ''user1''
      \<lparr>set_username = Some ''renamed'', set_password = Some ''newPassword'', set_id = None,
       set_dateJoined = None\<rparr> world0))
    = [\<lparr>username = ''renamed'', password = ''newPassword'', u_id = Some 0,
        dateJoined = 1733184000000\<rparr>] \<and>
   map (\<lambda>d. (u_id d, dateJoined d)) (users (snd (updateUser UserModel_mem ''user1''
      \<lparr>set_username = Some ''renamed'', set_password = Some ''newPassword'', set_id = None,
       set_dateJoined = None\<rparr> world0)))
    = [(Some 0, 1733184000000)] \<and>
   map (\<lambda>d. (u_id d, dateJoined d)) (users (snd (updateUser UserModel_mem ''user1''
      \<lparr>set_username = None, set_password = None, set_id = Some 0,
       set_dateJoined = Some 86400000\<rparr> world0)))
    = [(Some 0, 86400000)] \<and>
   snd (updateUser UserModel_mem ''user1''
      \<lparr>set_username = None, set_password = None, set_id = Some 5,
       set_dateJoined = Some 86400000\<rparr> world0) = world0 \<and>
   snd (updateUser UserModel_mem ''nonexistent''
      \<lparr>set_username = None, set_password = None, set_id = None,
       set_dateJoined = Some 86400000\<rparr> world0) = world0"
  using dateJoined_kept_unless_updated [where
      user = "\<lparr>username = ''user2'', password = ''pw'', u_id = None, dateJoined = 7\<rparr>"
      and now = 42 and w = world0 and name = "''user1''"
      and credentials = "\<lparr>username = ''user1'', password = ''password''\<rparr>"
      and message = "\<lparr>m_id = None, msg = ''Hello'', msgFrom = ''User1'', msgDateTime = None\<rparr>"
      and updates = "\<lparr>set_username = Some ''renamed'', set_password = Some ''newPassword'',
        set_id = None, set_dateJoined = None\<rparr>"]
    dateJoined_kept_unless_updated [where
      w = world0 and name = "''user1''"
      and updates = "\<lparr>set_username = None, set_password = None, set_id = Some 0,
        set_dateJoined = Some 86400000\<rparr>"
      and d = "\<lparr>username = ''user1'', password = ''password'', u_id = Some 0,
        dateJoined = 1733184000000\<rparr>"
      and t = 86400000]
    dateJoined_kept_unless_updated [where
      w = world0 and name = "''user1''"
      and updates = "\<lparr>set_username = None, set_password = None, set_id = Some 5,
        set_dateJoined = Some 86400000\<rparr>"
      and d = "\<lparr>username = ''user1'', password = ''password'', u_id = Some 0,
        dateJoined = 1733184000000\<rparr>"]
    dateJoined_kept_unless_updated [where
      w = world0 and name = "''nonexistent''"
      and updates = "\<lparr>set_username = None, set_password = None, set_id = None,
        set_dateJoined = Some 86400000\<rparr>"]
  by (simp add: saveUser_mem updateUser_mem world0_def apply_set_def)

text \<open>
  C5. Take a request that carries a valid message, any store, and a world in which the
  store's \<open>create\<close> of that message (with \<open>msgDateTime\<close> resolved) succeeds with the
  record \<open>d\<close>, leaving the world \<open>w1\<close>. Then \<open>addMessageRoute\<close> answers 200 with \<open>d\<close>
  as the body, and the world it leaves is \<open>w1\<close> with one \<open>emit\<close> of \<open>messageUpdate\<close>
  applied to it, whose payload is \<open>{msg: d}\<close>: with the recording socket, the events
  published after the store write are those published before it, followed by this one.
\<close>

theorem addMessageRoute_publishes_saved_message:
  assumes "req = Some b" and "messageToAdd b = Some m" and "isMessageValid m"
    and "message_create M
           \<lparr>m_id = None, msg = msg m, msgFrom = msgFrom m,
            msgDateTime = Some (case msgDateTime m of None \<Rightarrow> now | Some t \<Rightarrow> t)\<rparr> w
         = (Inr d, w1)"
  shows "addMessageRoute socket M req now w =
           (Inr \<lparr>status = 200, body = JsonMessage (SavedMessage d)\<rparr>,
            emit socket ''messageUpdate'' (Payload_msg d) w1) \<and>
         addMessageRoute socket_mem M req now w =
           (Inr \<lparr>status = 200, body = JsonMessage (SavedMessage d)\<rparr>,
            w1\<lparr>emitted := emitted w1 @ [(''messageUpdate'', Payload_msg d)]\<rparr>)"
proof -
  from assms(4) have saved: "saveMessage M m now w = (Inr (SavedMessage d), w1)"
    by (simp add: saveMessage_create)
  have route: "addMessageRoute s M req now w =
           (Inr \<lparr>status = 200, body = JsonMessage (SavedMessage d)\<rparr>,
            emit s ''messageUpdate'' (Payload_msg d) w1)" for s
    using assms(1-3) saved
    by (simp add: addMessageRoute_def isRequestValid_def try_catch_def await_def
        resolve_def perform_def)
  have "emit socket_mem ''messageUpdate'' (Payload_msg d) w1 =
          w1\<lparr>emitted := emitted w1 @ [(''messageUpdate'', Payload_msg d)]\<rparr>"
    by (simp add: socket_mem_def)
  with route [of socket] route [of socket_mem] show ?thesis by simp
qed

theorem addMessageRoute_publishes_saved_message_witness:
  "addMessageRoute socket_mem MessageModel_mem
     (Some \<lparr>messageToAdd = Some \<lparr>m_id = None, msg = ''Hello'', msgFrom = ''User1'',
                                  msgDateTime = None\<rparr>\<rparr>) 99 world0
   = (Inr \<lparr>status = 200,
           body = JsonMessage (SavedMessage \<lparr>m_id = Some 1, msg = ''Hello'', msgFrom = ''User1'',
                                            msgDateTime = Some 99\<rparr>)\<rparr>,
      world0\<lparr>messages := [\<lparr>m_id = Some 1, msg = ''Hello'', msgFrom = ''User1'',
                            msgDateTime = Some 99\<rparr>],
             next_id := 2,
             emitted := [(''messageUpdate'',
                          Payload_msg \<lparr>m_id = Some 1, msg = ''Hello'', msgFrom = ''User1'',
                                       msgDateTime = Some 99\<rparr>)]\<rparr>)"
proof -
  have valid: "isMessageValid \<lparr>m_id = None, msg = ''Hello'', msgFrom = ''User1'',
                               msgDateTime = None\<rparr>"
    by (simp add: isMessageValid_def truthy_def trim_def is_white_space_def)
  have created: "message_create MessageModel_mem
           \<lparr>m_id = None, msg = msg \<lparr>m_id = None, msg = ''Hello'', msgFrom = ''User1'',
                                     msgDateTime = None\<rparr>,
            msgFrom = msgFrom \<lparr>m_id = None, msg = ''Hello'', msgFrom = ''User1'',
                               msgDateTime = None\<rparr>,
            msgDateTime = Some (case msgDateTime \<lparr>m_id = None, msg = ''Hello'',
              msgFrom = ''User1'', msgDateTime = None\<rparr> of None \<Rightarrow> 99 | Some t \<Rightarrow> t)\<rparr> world0
         = (Inr \<lparr>m_id = Some 1, msg = ''Hello'', msgFrom = ''User1'', msgDateTime = Some 99\<rparr>,
            world0\<lparr>messages := [\<lparr>m_id = Some 1, msg = ''Hello'', msgFrom = ''User1'',
                                  msgDateTime = Some 99\<rparr>], next_id := 2\<rparr>)"
    by (simp add: MessageModel_mem_def world0_def Let_def)
  show ?thesis
    using addMessageRoute_publishes_saved_message [OF refl _ valid created, of _ socket_mem]
    by (simp add: world0_def socket_mem_def)
qed

text \<open>
  C6. Whatever the store does at each of its calls (resolve with any value, or reject
  with any exception), each of the seven functions of the two services resolves, and
  what it resolves to is fixed by what the store did. A function of the user service
  resolves to its own tagged error when a store call of it is rejected, to the tagged
  error of its case (\<open>Username already exists\<close>, \<open>User not found\<close>,
  \<open>Invalid username or password\<close>) when the store's answer calls for it, and
  otherwise to the safe projection of the document that the store returned.
  \<open>saveMessage\<close> resolves to the record that the store created, or to the tagged error
  \<open>Failed to save message\<close> when the creation is rejected; \<open>getMessages\<close> resolves
  to the list that the store returned, or to the empty list when the query is rejected.
  No function rejects: each result is an \<open>Inr\<close>.
\<close>

theorem services_resolve_with_value_or_tagged_error:
  "fst (saveUser UM user now w) =
     Inr (case fst (user_findOne UM (username user) w) of
            Inl e \<Rightarrow> error_obj ''Failed to save user''
          | Inr (Some existing) \<Rightarrow> error_obj ''Username already exists''
          | Inr None \<Rightarrow>
              (case fst (user_create UM
                           \<lparr>username = username user, password = password user,
                            u_id = None, dateJoined = now\<rparr>
                           (snd (user_findOne UM (username user) w))) of
                 Inl e \<Rightarrow> error_obj ''Failed to save user''
               | Inr newUser \<Rightarrow> safe_user newUser)) \<and>
   fst (getUserByUsername UM name w) =
     Inr (case fst (user_findOne UM name w) of
            Inl e \<Rightarrow> error_obj ''Failed to get user''
          | Inr None \<Rightarrow> error_obj ''User not found''
          | Inr (Some found) \<Rightarrow> safe_user found) \<and>
   fst (loginUser UM credentials w) =
     Inr (case fst (user_findOne UM (username credentials) w) of
            Inl e \<Rightarrow> error_obj ''Failed to login''
          | Inr None \<Rightarrow> error_obj ''Invalid username or password''
          | Inr (Some found) \<Rightarrow>
              if password found \<noteq> password credentials
              then error_obj ''Invalid username or password''
              else safe_user found) \<and>
   fst (deleteUserByUsername UM name w) =
     Inr (case fst (user_findOneAndDelete UM name w) of
            Inl e \<Rightarrow> error_obj ''Failed to delete user''
          | Inr None \<Rightarrow> error_obj ''User not found''
          | Inr (Some found) \<Rightarrow> safe_user found) \<and>
   fst (updateUser UM name updates w) =
     Inr (case fst (user_findOneAndUpdate UM name updates w) of
            Inl e \<Rightarrow> error_obj ''Failed to update user''
          | Inr None \<Rightarrow> error_obj ''User not found''
          | Inr (Some found) \<Rightarrow> safe_user found) \<and>
   fst (saveMessage MM message now w) =
     Inr (case fst (message_create MM
                      \<lparr>m_id = None, msg = msg message, msgFrom = msgFrom message,
                       msgDateTime = Some (case msgDateTime message of
                                             None \<Rightarrow> now | Some t \<Rightarrow> t)\<rparr> w) of
            Inl e \<Rightarrow> MessageError ''Failed to save message''
          | Inr newMessage \<Rightarrow> SavedMessage newMessage) \<and>
   fst (getMessages MM w) =
     Inr (case fst (message_find_sort_msgDateTime MM 1 w) of
            Inl e \<Rightarrow> []
          | Inr found \<Rightarrow> found)"
proof (intro conjI)
  show "fst (saveUser UM user now w) =
     Inr (case fst (user_findOne UM (username user) w) of
            Inl e \<Rightarrow> error_obj ''Failed to save user''
          | Inr (Some existing) \<Rightarrow> error_obj ''Username already exists''
          | Inr None \<Rightarrow>
              (case fst (user_create UM
                           \<lparr>username = username user, password = password user,
                            u_id = None, dateJoined = now\<rparr>
                           (snd (user_findOne UM (username user) w))) of
                 Inl e \<Rightarrow> error_obj ''Failed to save user''
               | Inr newUser \<Rightarrow> safe_user newUser))"
    by (simp add: saveUser_def fst_try_catch_resolve fst_await fst_resolve
        split: sum.split option.split)
  show "fst (getUserByUsername UM name w) =
     Inr (case fst (user_findOne UM name w) of
            Inl e \<Rightarrow> error_obj ''Failed to get user''
          | Inr None \<Rightarrow> error_obj ''User not found''
          | Inr (Some found) \<Rightarrow> safe_user found)"
    by (simp add: getUserByUsername_def fst_try_catch_resolve fst_await fst_resolve
        split: sum.split option.split)
  show "fst (loginUser UM credentials w) =
     Inr (case fst (user_findOne UM (username credentials) w) of
            Inl e \<Rightarrow> error_obj ''Failed to login''
          | Inr None \<Rightarrow> error_obj ''Invalid username or password''
          | Inr (Some found) \<Rightarrow>
              if password found \<noteq> password credentials
              then error_obj ''Invalid username or password''
              else safe_user found)"
    by (simp add: loginUser_def fst_try_catch_resolve fst_await fst_resolve
        split: sum.split option.split)
  show "fst (deleteUserByUsername UM name w) =
     Inr (case fst (user_findOneAndDelete UM name w) of
            Inl e \<Rightarrow> error_obj ''Failed to delete user''
          | Inr None \<Rightarrow> error_obj ''User not found''
          | Inr (Some found) \<Rightarrow> safe_user found)"
    by (simp add: deleteUserByUsername_def fst_try_catch_resolve fst_await fst_resolve
        split: sum.split option.split)
  show "fst (updateUser UM name updates w) =
     Inr (case fst (user_findOneAndUpdate UM name updates w) of
            Inl e \<Rightarrow> error_obj ''Failed to update user''
          | Inr None \<Rightarrow> error_obj ''User not found''
          | Inr (Some found) \<Rightarrow> safe_user found)"
    by (simp add: updateUser_def fst_try_catch_resolve fst_await fst_resolve
        split: sum.split option.split)
  show "fst (saveMessage MM message now w) =
     Inr (case fst (message_create MM
                      \<lparr>m_id = None, msg = msg message, msgFrom = msgFrom message,
                       msgDateTime = Some (case msgDateTime message of
                                             None \<Rightarrow> now | Some t \<Rightarrow> t)\<rparr> w) of
            Inl e \<Rightarrow> MessageError ''Failed to save message''
          | Inr newMessage \<Rightarrow> SavedMessage newMessage)"
    by (simp add: saveMessage_create split: prod.split sum.split)
  show "fst (getMessages MM w) =
     Inr (case fst (message_find_sort_msgDateTime MM 1 w) of
            Inl e \<Rightarrow> []
          | Inr found \<Rightarrow> found)"
    by (simp add: getMessages_def fst_try_catch_resolve fst_await fst_resolve
        split: sum.split)
qed

theorem services_resolve_with_value_or_tagged_error_witness:
  "fst (saveUser UserModel_down
          \<lparr>username = ''user2'', password = ''pw'', u_id = None, dateJoined = 7\<rparr> 42 world0)
     = Inr [(''error'', JString ''Failed to save user'')] \<and>
   fst (getUserByUsername UserModel_down ''user1'' world0)
     = Inr [(''error'', JString ''Failed to get user'')] \<and>
   fst (loginUser UserModel_down \<lparr>username = ''user1'', password = ''password''\<rparr> world0)
     = Inr [(''error'', JString ''Failed to login'')] \<and>
   fst (deleteUserByUsername UserModel_down ''user1'' world0)
     = Inr [(''error'', JString ''Failed to delete user'')] \<and>
   fst (updateUser UserModel_down ''user1''
          \<lparr>set_username = None, set_password = Some ''newPassword'', set_id = None,
           set_dateJoined = None\<rparr> world0)
     = Inr [(''error'', JString ''Failed to update user'')] \<and>
   fst (saveMessage MessageModel_down message1 42 world0)
     = Inr (MessageError ''Failed to save message'') \<and>
   fst (getMessages MessageModel_down world0) = Inr [] \<and>
   fst (getUserByUsername UserModel_mem ''user1'' world0)
     = Inr [(''_id'', JObjectId 0), (''username'', JString ''user1''),
            (''dateJoined'', JDate 1733184000000)] \<and>
   fst (getUserByUsername UserModel_mem ''nonexistent'' world0)
     = Inr [(''error'', JString ''User not found'')] \<and>
   fst (getMessages MessageModel_mem world_messages) = Inr [message1, message2]"
  using services_resolve_with_value_or_tagged_error
      [where UM = UserModel_down and MM = MessageModel_down and w = world0 and now = 42
         and user = "\<lparr>username = ''user2'', password = ''pw'', u_id = None, dateJoined = 7\<rparr>"
         and name = "''user1''"
         and credentials = "\<lparr>username = ''user1'', password = ''password''\<rparr>"
         and updates = "\<lparr>set_username = None, set_password = Some ''newPassword'',
                         set_id = None, set_dateJoined = None\<rparr>"
         and message = message1]
    services_resolve_with_value_or_tagged_error
      [where UM = UserModel_mem and MM = MessageModel_mem and w = world0
         and name = "''user1''"]
    services_resolve_with_value_or_tagged_error
      [where UM = UserModel_mem and MM = MessageModel_mem and w = world0
         and name = "''nonexistent''"]
    services_resolve_with_value_or_tagged_error
      [where UM = UserModel_mem and MM = MessageModel_mem and w = world_messages]
  by (simp add: UserModel_down_def MessageModel_down_def UserModel_mem_def MessageModel_mem_def
      reject_def world0_def world_messages_def message1_def message2_def error_obj_def
      safe_user_def)

text \<open>
  C7. Whatever the store does, an object that \<open>saveUser\<close>, \<open>getUserByUsername\<close>,
  \<open>loginUser\<close>, \<open>deleteUserByUsername\<close> or \<open>updateUser\<close> resolves to has no
  \<open>password\<close> key: its keys are either \<open>error\<close> alone or \<open>_id\<close>, \<open>username\<close> and
  \<open>dateJoined\<close>.
\<close>

theorem safe_projection_omits_password:
  assumes "fst (saveUser M user now w) = Inr v
         \<or> fst (getUserByUsername M name w) = Inr v
         \<or> fst (loginUser M credentials w) = Inr v
         \<or> fst (deleteUserByUsername M name w) = Inr v
         \<or> fst (updateUser M name updates w) = Inr v"
  shows "\<not> has_key ''password'' v \<and>
         (keys v = [''error''] \<or> keys v = [''_id'', ''username'', ''dateJoined''])"
  using assms
proof (elim disjE)
  assume "fst (saveUser M user now w) = Inr v"
  with saveUser_outcome [of M user now w] show ?thesis by (rule Inr_outcome_keys)
next
  assume "fst (getUserByUsername M name w) = Inr v"
  with getUserByUsername_outcome [of M name w] show ?thesis by (rule Inr_outcome_keys)
next
  assume "fst (loginUser M credentials w) = Inr v"
  with loginUser_outcome [of M credentials w] show ?thesis by (rule Inr_outcome_keys)
next
  assume "fst (deleteUserByUsername M name w) = Inr v"
  with deleteUserByUsername_outcome [of M name w] show ?thesis by (rule Inr_outcome_keys)
next
  assume "fst (updateUser M name updates w) = Inr v"
  with updateUser_outcome [of M name updates w] show ?thesis by (rule Inr_outcome_keys)
qed

theorem safe_projection_omits_password_witness:
  "fst (saveUser UserModel_mem
          \<lparr>username = ''user2'', password = ''pw'', u_id = None, dateJoined = 7\<rparr> 42 world0)
     = Inr [(''_id'', JObjectId 1), (''username'', JString ''user2''), (''dateJoined'', JDate 42)] \<and>
   \<not> has_key ''password''
     [(''_id'', JObjectId 1), (''username'', JString ''user2''), (''dateJoined'', JDate 42)] \<and>
   fst (getUserByUsername UserModel_mem ''user1'' world0)
     = Inr [(''_id'', JObjectId 0), (''username'', JString ''user1''),
            (''dateJoined'', JDate 1733184000000)] \<and>
   fst (loginUser UserModel_mem \<lparr>username = ''user1'', password = ''password''\<rparr> world0)
     = Inr [(''_id'', JObjectId 0), (''username'', JString ''user1''),
            (''dateJoined'', JDate 1733184000000)] \<and>
   fst (deleteUserByUsername UserModel_mem ''user1'' world0)
     = Inr [(''_id'', JObjectId 0), (''username'', JString ''user1''),
            (''dateJoined'', JDate 1733184000000)] \<and>
   fst (updateUser UserModel_mem ''user1''
          \<lparr>set_username = None, set_password = Some ''newPassword'', set_id = None,
           set_dateJoined = None\<rparr> world0)
     = Inr [(''_id'', JObjectId 0), (''username'', JString ''user1''),
            (''dateJoined'', JDate 1733184000000)] \<and>
   \<not> has_key ''password''
     [(''_id'', JObjectId 0), (''username'', JString ''user1''),
      (''dateJoined'', JDate 1733184000000)]"
  using safe_projection_omits_password
    [where M = UserModel_mem and w = world0
       and user = "\<lparr>username = ''user2'', password = ''pw'', u_id = None, dateJoined = 7\<rparr>"
       and now = 42 and name = "''user1''"
       and credentials = "\<lparr>username = ''user1'', password = ''password''\<rparr>"
       and updates = "\<lparr>set_username = None, set_password = Some ''newPassword'', set_id = None,
                       set_dateJoined = None\<rparr>"
       and v = "[(''_id'', JObjectId 1), (''username'', JString ''user2''),
                 (''dateJoined'', JDate 42)]"]
    safe_projection_omits_password
    [where M = UserModel_mem and w = world0
       and user = "\<lparr>username = ''user2'', password = ''pw'', u_id = None, dateJoined = 7\<rparr>"
       and now = 42 and name = "''user1''"
       and credentials = "\<lparr>username = ''user1'', password = ''password''\<rparr>"
       and updates = "\<lparr>set_username = None, set_password = Some ''newPassword'', set_id = None,
                       set_dateJoined = None\<rparr>"
       and v = "[(''_id'', JObjectId 0), (''username'', JString ''user1''),
                 (''dateJoined'', JDate 1733184000000)]"]
  by (simp add: saveUser_mem getUserByUsername_mem loginUser_mem deleteUserByUsername_mem
      updateUser_mem world0_def safe_user_def apply_set_def)

text \<open>
  C8. Whatever the store does, \<open>resetPassword\<close> on a body whose \<open>password\<close> is missing
  or empty answers 400 with the plain text \<open>Invalid user body\<close> and leaves the world as
  it is: the answer does not depend on the store, so \<open>updateUser\<close>, whose first step is
  a store call, has not run.
\<close>

theorem resetPassword_empty_password:
  assumes "req_password req = None \<or> req_password req = Some []"
  shows "resetPassword M req w = (Inr \<lparr>status = 400, body = Text ''Invalid user body''\<rparr>, w)"
  using assms
  by (auto simp: resetPassword_def truthy_def try_catch_def resolve_def)

theorem resetPassword_empty_password_witness:
  "resetPassword UserModel_mem \<lparr>req_username = Some ''user1'', req_password = Some ''''\<rparr> world0
     = (Inr \<lparr>status = 400, body = Text ''Invalid user body''\<rparr>, world0) \<and>
   resetPassword UserModel_down \<lparr>req_username = Some ''user1'', req_password = None\<rparr> world0
     = (Inr \<lparr>status = 400, body = Text ''Invalid user body''\<rparr>, world0)"
  using resetPassword_empty_password
      [of "\<lparr>req_username = Some ''user1'', req_password = Some ''''\<rparr>" UserModel_mem world0]
    resetPassword_empty_password
      [of "\<lparr>req_username = Some ''user1'', req_password = None\<rparr>" UserModel_down world0]
  by simp

text \<open>
  C9. For any store, \<open>saveMessage\<close> asks the store to create the message with its own
  \<open>msgDateTime\<close>, or with the current time when it carries none; when the store resolves
  with a record, \<open>saveMessage\<close> returns that record as it is, and it returns the tagged
  error \<open>Failed to save message\<close> exactly when the store's \<open>create\<close> is rejected. On the
  in-memory store the record is appended, with the identifier assigned by the store.
\<close>

theorem saveMessage_stores_with_default_date:
  "(message_create M
      \<lparr>m_id = None, msg = msg m, msgFrom = msgFrom m,
       msgDateTime = Some (case msgDateTime m of None \<Rightarrow> now | Some t \<Rightarrow> t)\<rparr> w = (Inr d, w1)
      \<longrightarrow> saveMessage M m now w = (Inr (SavedMessage d), w1)) \<and>
   ((fst (saveMessage M m now w) = Inr (MessageError ''Failed to save message'')) =
    (\<exists>e. fst (message_create M
      \<lparr>m_id = None, msg = msg m, msgFrom = msgFrom m,
       msgDateTime = Some (case msgDateTime m of None \<Rightarrow> now | Some t \<Rightarrow> t)\<rparr> w) = Inl e)) \<and>
   saveMessage MessageModel_mem m' now' w' =
     (Inr (SavedMessage
        \<lparr>m_id = Some (next_id w'), msg = msg m', msgFrom = msgFrom m',
         msgDateTime = Some (case msgDateTime m' of None \<Rightarrow> now' | Some t \<Rightarrow> t)\<rparr>),
      w'\<lparr>messages := messages w' @
            [\<lparr>m_id = Some (next_id w'), msg = msg m', msgFrom = msgFrom m',
              msgDateTime = Some (case msgDateTime m' of None \<Rightarrow> now' | Some t \<Rightarrow> t)\<rparr>],
         next_id := Suc (next_id w')\<rparr>)"
proof (intro conjI impI)
  assume "message_create M
      \<lparr>m_id = None, msg = msg m, msgFrom = msgFrom m,
       msgDateTime = Some (case msgDateTime m of None \<Rightarrow> now | Some t \<Rightarrow> t)\<rparr> w = (Inr d, w1)"
  then show "saveMessage M m now w = (Inr (SavedMessage d), w1)"
    by (simp add: saveMessage_create)
next
  show "(fst (saveMessage M m now w) = Inr (MessageError ''Failed to save message'')) =
    (\<exists>e. fst (message_create M
      \<lparr>m_id = None, msg = msg m, msgFrom = msgFrom m,
       msgDateTime = Some (case msgDateTime m of None \<Rightarrow> now | Some t \<Rightarrow> t)\<rparr> w) = Inl e)"
    by (simp add: saveMessage_create split: prod.split sum.split)
next
  show "saveMessage MessageModel_mem m' now' w' =
     (Inr (SavedMessage
        \<lparr>m_id = Some (next_id w'), msg = msg m', msgFrom = msgFrom m',
         msgDateTime = Some (case msgDateTime m' of None \<Rightarrow> now' | Some t \<Rightarrow> t)\<rparr>),
      w'\<lparr>messages := messages w' @
            [\<lparr>m_id = Some (next_id w'), msg = msg m', msgFrom = msgFrom m',
              msgDateTime = Some (case msgDateTime m' of None \<Rightarrow> now' | Some t \<Rightarrow> t)\<rparr>],
         next_id := Suc (next_id w')\<rparr>)"
    by (simp add: saveMessage_create MessageModel_mem_def Let_def)
qed

theorem saveMessage_stores_with_default_date_witness:
  "saveMessage MessageModel_mem
     \<lparr>m_id = None, msg = ''Test'', msgFrom = ''User3'', msgDateTime = None\<rparr> 99 world0
   = (Inr (SavedMessage \<lparr>m_id = Some 1, msg = ''Test'', msgFrom = ''User3'',
                         msgDateTime = Some 99\<rparr>),
      world0\<lparr>messages := [\<lparr>m_id = Some 1, msg = ''Test'', msgFrom = ''User3'',
                            msgDateTime = Some 99\<rparr>], next_id := 2\<rparr>) \<and>
   saveMessage MessageModel_mem message1 99 world0
   = (Inr (SavedMessage message1), world0\<lparr>messages := [message1], next_id := 2\<rparr>) \<and>
   fst (saveMessage MessageModel_down message1 99 world0)
   = Inr (MessageError ''Failed to save message'')"
  using saveMessage_stores_with_default_date
      [where M = MessageModel_mem and w = world0 and now = 99
         and m = "\<lparr>m_id = None, msg = ''Test'', msgFrom = ''User3'', msgDateTime = None\<rparr>"
         and d = "\<lparr>m_id = Some 1, msg = ''Test'', msgFrom = ''User3'', msgDateTime = Some 99\<rparr>"
         and ?w1.0 = "world0\<lparr>messages := [\<lparr>m_id = Some 1, msg = ''Test'', msgFrom = ''User3'',
                            msgDateTime = Some 99\<rparr>], next_id := 2\<rparr>"
         and m' = message1 and now' = 99 and w' = world0]
    saveMessage_stores_with_default_date
      [where M = MessageModel_down and w = world0 and now = 99 and m = message1
         and m' = message1 and now' = 99 and w' = world0]
  by (simp add: MessageModel_mem_def MessageModel_down_def reject_def world0_def message1_def
      Let_def)

text \<open>
  C10. For the body with the username of three spaces and the password \<open>secret\<close>,
  \<open>createUser\<close> and \<open>userLogin\<close> answer 400 \<open>Invalid user body\<close> and leave the world
  as it is, whatever the store does; \<open>resetPassword\<close> calls \<open>updateUser\<close> with the
  username of three spaces and \<open>{password: secret}\<close>, and answers with what that call
  returned. On the in-memory store that holds a user of that name, the password of that
  user is replaced.
\<close>

theorem resetPassword_skips_trim:
  "createUser M \<lparr>req_username = Some ''   '', req_password = Some ''secret''\<rparr> now_c now_s w
     = (Inr \<lparr>status = 400, body = Text ''Invalid user body''\<rparr>, w) \<and>
   userLogin M \<lparr>req_username = Some ''   '', req_password = Some ''secret''\<rparr> w
     = (Inr \<lparr>status = 400, body = Text ''Invalid user body''\<rparr>, w) \<and>
   (\<exists>result w1.
      updateUser M ''   '' \<lparr>set_username = None, set_password = Some ''secret'',
                            set_id = None, set_dateJoined = None\<rparr> w = (Inr result, w1) \<and>
      resetPassword M \<lparr>req_username = Some ''   '', req_password = Some ''secret''\<rparr> w
        = (Inr \<lparr>status = (if has_key ''error'' result
                           then if get_prop result ''error'' = JString ''User not found''
                                then 404 else 500
                           else 200),
                 body = Json result\<rparr>, w1)) \<and>
   resetPassword UserModel_mem \<lparr>req_username = Some ''   '', req_password = Some ''secret''\<rparr>
       world_blank
     = (Inr \<lparr>status = 200,
              body = Json [(''_id'', JObjectId 0), (''username'', JString ''   ''),
                           (''dateJoined'', JDate 1733184000000)]\<rparr>,
        world_blank\<lparr>users := [\<lparr>username = ''   '', password = ''secret'', u_id = Some 0,
                                 dateJoined = 1733184000000\<rparr>]\<rparr>)"
proof (intro conjI)
  show "createUser M \<lparr>req_username = Some ''   '', req_password = Some ''secret''\<rparr> now_c now_s w
     = (Inr \<lparr>status = 400, body = Text ''Invalid user body''\<rparr>, w)"
    by (simp add: createUser_def isUserBodyValid_def trim_blank try_catch_def resolve_def)
  show "userLogin M \<lparr>req_username = Some ''   '', req_password = Some ''secret''\<rparr> w
     = (Inr \<lparr>status = 400, body = Text ''Invalid user body''\<rparr>, w)"
    by (simp add: userLogin_def isUserBodyValid_def trim_blank try_catch_def resolve_def)
next
  let ?upd = "\<lparr>set_username = None, set_password = Some ''secret'',
               set_id = None, set_dateJoined = None\<rparr>"
  obtain r w1 where run: "updateUser M ''   '' ?upd w = (r, w1)"
    by (cases "updateUser M ''   '' ?upd w")
  have "\<exists>v. fst (updateUser M ''   '' ?upd w) = Inr v"
    using updateUser_outcome [of M "''   ''" ?upd w] by blast
  with run obtain result where r: "r = Inr result" by auto
  with run have "resetPassword M \<lparr>req_username = Some ''   '', req_password = Some ''secret''\<rparr> w
        = (Inr \<lparr>status = (if has_key ''error'' result
                           then if get_prop result ''error'' = JString ''User not found''
                                then 404 else 500
                           else 200),
                 body = Json result\<rparr>, w1)"
    by (simp add: resetPassword_def truthy_def try_catch_def await_def resolve_def)
  with run r show "\<exists>result w1.
      updateUser M ''   '' ?upd w = (Inr result, w1) \<and>
      resetPassword M \<lparr>req_username = Some ''   '', req_password = Some ''secret''\<rparr> w
        = (Inr \<lparr>status = (if has_key ''error'' result
                           then if get_prop result ''error'' = JString ''User not found''
                                then 404 else 500
                           else 200),
                 body = Json result\<rparr>, w1)"
    by blast
next
  show "resetPassword UserModel_mem \<lparr>req_username = Some ''   '', req_password = Some ''secret''\<rparr>
       world_blank
     = (Inr \<lparr>status = 200,
              body = Json [(''_id'', JObjectId 0), (''username'', JString ''   ''),
                           (''dateJoined'', JDate 1733184000000)]\<rparr>,
        world_blank\<lparr>users := [\<lparr>username = ''   '', password = ''secret'', u_id = Some 0,
                                 dateJoined = 1733184000000\<rparr>]\<rparr>)"
    by (simp add: resetPassword_def truthy_def try_catch_def await_def resolve_def
        updateUser_mem world_blank_def apply_set_def safe_user_def has_key_def keys_def)
qed

theorem resetPassword_skips_trim_witness:
  "createUser UserModel_mem \<lparr>req_username = Some ''   '', req_password = Some ''secret''\<rparr>
       1 2 world0
     = (Inr \<lparr>status = 400, body = Text ''Invalid user body''\<rparr>, world0) \<and>
   userLogin UserModel_mem \<lparr>req_username = Some ''   '', req_password = Some ''secret''\<rparr> world0
     = (Inr \<lparr>status = 400, body = Text ''Invalid user body''\<rparr>, world0) \<and>
   resetPassword UserModel_mem \<lparr>req_username = Some ''   '', req_password = Some ''secret''\<rparr>
       world0
     = (Inr \<lparr>status = 404, body = Json [(''error'', JString ''User not found'')]\<rparr>, world0)"
  using resetPassword_skips_trim [of UserModel_mem 1 2 world0]
  by (auto simp: updateUser_mem world0_def error_obj_def has_key_def keys_def get_prop_def)

end
